theory Spec2Isabelle
  imports Complex_Main "HOL-Library.Sublist" "HOL-Library.AList"
begin

section \<open>DeepMindCheck: classifier, analysis store and reports\<close>

text \<open>
  A shallow embedding of \<^verbatim>\<open>api/views.py\<close> and \<^verbatim>\<open>analytics/views.py\<close>.

  Conventions of the model:
  \<^item> Python \<^verbatim>\<open>float\<close> values are exact real numbers: \<^verbatim>\<open>0.05\<close> is the rational
    \<open>5/100\<close>, and \<^verbatim>\<open>+\<close>, \<^verbatim>\<open>-\<close>, \<^verbatim>\<open>*\<close>, \<^verbatim>\<open>/\<close> do not round.
  \<^item> A Python \<^verbatim>\<open>str\<close> is a \<^typ>\<open>string\<close>; each \<^typ>\<open>char\<close> stands for one code point
    below 256, so \<^const>\<open>length\<close> is Python's \<^verbatim>\<open>len\<close> on such texts.
  \<^item> \<^verbatim>\<open>random.random()\<close> is an input: every function that draws takes the values
    drawn, each a number \<open>u\<close> of the unit interval.
  \<^item> An exception is a value of type \<open>py_error\<close>.
\<close>

subsection \<open>Strings\<close>

text \<open>\<^verbatim>\<open>str.lower()\<close> on code points below 256: A-Z and the Latin-1 capitals.\<close>

definition lower_char :: "char \<Rightarrow> char" where
  "lower_char c =
     (let n = (of_char c :: nat)
      in if (65 \<le> n \<and> n \<le> 90) \<or> (192 \<le> n \<and> n \<le> 222 \<and> n \<noteq> 215)
         then char_of (n + 32) else c)"

definition lower :: "string \<Rightarrow> string" where
  "lower s = map lower_char s"

text \<open>\<^verbatim>\<open>str.isspace()\<close> on code points below 256, as \<^verbatim>\<open>str.strip()\<close> uses it.\<close>

definition isspace :: "char \<Rightarrow> bool" where
  "isspace c =
     (let n = (of_char c :: nat)
      in (9 \<le> n \<and> n \<le> 13) \<or> (28 \<le> n \<and> n \<le> 32) \<or> n = 133 \<or> n = 160)"

definition strip :: "string \<Rightarrow> string" where
  "strip s = rev (dropWhile isspace (rev (dropWhile isspace s)))"

text \<open>\<^verbatim>\<open>word in text\<close>: \<open>word\<close> occurs in \<open>text\<close> as a contiguous run.\<close>

fun str_in :: "string \<Rightarrow> string \<Rightarrow> bool" where
  "str_in w [] = (w = [])"
| "str_in w (c # cs) = (prefix w (c # cs) \<or> str_in w cs)"

subsection \<open>Random draws\<close>

text \<open>\<^verbatim>\<open>random.uniform(a, b)\<close> is \<^verbatim>\<open>a + (b - a) * self.random()\<close>; \<open>u\<close> is the value
  of \<^verbatim>\<open>random()\<close>. Nothing requires \<open>a \<le> b\<close>.\<close>

definition uniform :: "real \<Rightarrow> real \<Rightarrow> real \<Rightarrow> real" where
  "uniform a b u = a + (b - a) * u"

definition unit_draw :: "real \<Rightarrow> bool" where
  "unit_draw u = (0 \<le> u \<and> u \<le> 1)"

subsection \<open>The classifier\<close>

datatype py_error =
  KeyError | AttributeError | DoesNotExist | MultipleObjectsReturned | ValidationError

type_synonym probs = "(string \<times> real) list"

definition depression_keywords :: "string list" where
  "depression_keywords =
     [''sad'', ''depressed'', ''hopeless'', ''worthless'', ''tired'', ''empty'', ''lonely'',
      ''useless'']"

definition anxiety_keywords :: "string list" where
  "anxiety_keywords =
     [''anxious'', ''worried'', ''nervous'', ''panic'', ''stress'', ''overwhelmed'', ''scared'',
      ''fear'']"

definition neutral_keywords :: "string list" where
  "neutral_keywords =
     [''happy'', ''good'', ''great'', ''excited'', ''positive'', ''love'', ''joy'',
      ''wonderful'']"

text \<open>\<^verbatim>\<open>sum(1 for word in keywords if word in text_lower)\<close>\<close>

definition score :: "string list \<Rightarrow> string \<Rightarrow> nat" where
  "score keywords text_lower = length (filter (\<lambda>word. str_in word text_lower) keywords)"

text \<open>The loop of \<^verbatim>\<open>generate_probabilities\<close> over \<^verbatim>\<open>enumerate(other_classes)\<close>:
  \<open>n\<close> is \<^verbatim>\<open>len(other_classes)\<close>, \<open>i\<close> the index, \<open>us i\<close> the draw of iteration \<open>i\<close>.
  A dictionary is an association list in insertion order; \<^const>\<open>AList.update\<close> keeps
  the place of a key that is present and appends a new one, as a Python dict does.\<close>

fun probs_loop :: "(nat \<Rightarrow> real) \<Rightarrow> nat \<Rightarrow> nat \<Rightarrow> string list \<Rightarrow> probs \<Rightarrow> real \<Rightarrow> probs" where
  "probs_loop us n i [] probs remaining = probs"
| "probs_loop us n i (other # rest) probs remaining =
     (if int i = int n - 1
      then probs_loop us n (i + 1) rest (AList.update other remaining probs) remaining
      else (let prob = uniform 0.05 (remaining - 0.05) (us i)
            in probs_loop us n (i + 1) rest (AList.update other prob probs) (remaining - prob)))"

definition generate_probabilities :: "(nat \<Rightarrow> real) \<Rightarrow> string \<Rightarrow> real \<Rightarrow> probs" where
  "generate_probabilities us prediction confidence =
     (let probs0 = [(''neutral'', 0.33), (''depression'', 0.33), (''anxiety'', 0.33)];
          probs1 = AList.update prediction confidence probs0;
          remaining = 1.0 - confidence;
          other_classes = filter (\<lambda>k. k \<noteq> prediction) (map fst probs1)
      in probs_loop us (length other_classes) 0 other_classes probs1 remaining)"

text \<open>The label and the base confidence chosen from the three scores.\<close>

definition choose_label :: "nat \<Rightarrow> nat \<Rightarrow> nat \<Rightarrow> string \<times> real" where
  "choose_label depression_score anxiety_score neutral_score =
     (if depression_score > anxiety_score \<and> depression_score > neutral_score
      then (''depression'', 0.7 + real depression_score * 0.05)
      else if anxiety_score > depression_score \<and> anxiety_score > neutral_score
      then (''anxiety'', 0.7 + real anxiety_score * 0.05)
      else if neutral_score > 0
      then (''neutral'', 0.6 + real neutral_score * 0.05)
      else (''neutral'', 0.5))"

text \<open>\<open>u\<close> is the draw of \<^verbatim>\<open>random.uniform(-0.1, 0.1)\<close>, \<open>us\<close> the draws of
  \<^verbatim>\<open>generate_probabilities\<close>.\<close>

definition generate_demo_prediction :: "real \<Rightarrow> (nat \<Rightarrow> real) \<Rightarrow> string \<Rightarrow> string \<times> real \<times> probs" where
  "generate_demo_prediction u us text =
     (let text_lower = lower text;
          depression_score = score depression_keywords text_lower;
          anxiety_score = score anxiety_keywords text_lower;
          neutral_score = score neutral_keywords text_lower;
          (prediction, base_confidence) =
             choose_label depression_score anxiety_score neutral_score;
          confidence = min 0.95 (max 0.3 (base_confidence + uniform (- 0.1) 0.1 u));
          probabilities = generate_probabilities us prediction confidence
      in (prediction, confidence, probabilities))"

subsection \<open>Messages, recommendations and explanations\<close>

text \<open>\<^verbatim>\<open>d[k]\<close> on a dictionary: the value, or \<^verbatim>\<open>KeyError\<close>.\<close>

definition dict_get :: "('k \<times> 'v) list \<Rightarrow> 'k \<Rightarrow> py_error + 'v" where
  "dict_get d k = (case map_of d k of None \<Rightarrow> Inl KeyError | Some v \<Rightarrow> Inr v)"

definition messages :: "(string \<times> (string \<times> string) list) list" where
  "messages =
     [(''neutral'',
        [(''high'', ''Your text suggests a balanced and positive mental state. Keep maintaining good mental health practices!''),
         (''medium'', ''Your text appears mostly neutral. Continue focusing on your well-being.''),
         (''low'', ''The analysis suggests a generally stable state, though some patterns are unclear.'')]),
      (''depression'',
        [(''high'', ''Your text shows patterns that may indicate depressive thoughts. Please consider reaching out to a mental health professional or trusted person.''),
         (''medium'', ''Some concerning patterns detected in your text. It might be helpful to talk to someone you trust.''),
         (''low'', ''Your text contains some indicators that warrant attention. Consider monitoring your mental health.'')]),
      (''anxiety'',
        [(''high'', ''Your text suggests elevated stress or anxiety levels. Relaxation techniques and professional support may be beneficial.''),
         (''medium'', ''Some stress or anxiety indicators detected. Consider practicing stress management techniques.''),
         (''low'', ''Mild stress patterns observed. Regular self-care practices may be helpful.'')])]"

definition generate_message :: "string \<Rightarrow> real \<Rightarrow> py_error + string" where
  "generate_message prediction confidence =
     (let level = (if confidence > 0.7 then ''high''
                   else if confidence > 0.5 then ''medium'' else ''low'')
      in case dict_get messages prediction of
           Inl e \<Rightarrow> Inl e
         | Inr by_level \<Rightarrow> dict_get by_level level)"

definition recommendations :: "(string \<times> string list) list" where
  "recommendations =
     [(''neutral'',
        [''Continue healthy lifestyle habits and regular exercise'',
         ''Maintain strong social connections with friends and family'',
         ''Practice mindfulness or meditation regularly'']),
      (''depression'',
        [''Consider speaking with a mental health professional'',
         ''Reach out to trusted friends, family members, or support groups'',
         ''Maintain physical activity and spend time in natural light'']),
      (''anxiety'',
        [''Practice deep breathing exercises and progressive muscle relaxation'',
         ''Try mindfulness meditation or grounding techniques'',
         ''Consider limiting caffeine intake and maintaining regular sleep''])]"

definition generate_recommendations :: "string \<Rightarrow> py_error + string list" where
  "generate_recommendations prediction = dict_get recommendations prediction"

definition explanations :: "(string \<times> string) list" where
  "explanations =
     [(''depression'', ''The model detected language patterns and word choices commonly associated with depressive thoughts, including expressions of hopelessness, sadness, or negative self-perception.''),
      (''anxiety'', ''The analysis identified linguistic markers typically associated with anxiety, such as expressions of worry, nervousness, or stress-related concerns.''),
      (''neutral'', ''The language patterns in your text appear balanced and don't strongly indicate specific mental health concerns, suggesting a relatively stable emotional state.'')]"

text \<open>Rounding to the nearest integer, a tie to the even one, as \<^verbatim>\<open>round\<close> and the
  format specifications of Python do.\<close>

definition round_half_even :: "real \<Rightarrow> int" where
  "round_half_even x =
     (let f = \<lfloor>x\<rfloor>; d = x - of_int f
      in if d < 1/2 then f else if d > 1/2 then f + 1 else if even f then f else f + 1)"

function str_nat :: "nat \<Rightarrow> string" where
  "str_nat n = (if n < 10 then [char_of (48 + n)]
                else str_nat (n div 10) @ [char_of (48 + n mod 10)])"
  by pat_completeness auto
termination
  by (relation "measure id") auto

text \<open>\<^verbatim>\<open>f"{x:.1%}"\<close>: the percentage with one decimal.\<close>

definition format_percent1 :: "real \<Rightarrow> string" where
  "format_percent1 x =
     (let m = nat (round_half_even (\<bar>x\<bar> * 1000))
      in (if x < 0 then ''-'' else []) @ str_nat (m div 10) @ ''.'' @ str_nat (m mod 10)
         @ ''%'')"

record explanation =
  reasoning :: string
  confidence_explanation :: string
  disclaimer :: string

definition generate_explanation :: "string \<Rightarrow> real \<Rightarrow> string \<Rightarrow> py_error + explanation" where
  "generate_explanation prediction confidence text =
     (let confidence_explanation0 =
            ''The model's confidence in this prediction is '' @ format_percent1 confidence
            @ ''. '';
          confidence_explanation1 = confidence_explanation0 @
            (if confidence > 0.8
             then ''This indicates a strong pattern match with the training data.''
             else if confidence > 0.6
             then ''This suggests a moderate pattern match with some uncertainty.''
             else ''This indicates lower certainty, suggesting mixed or unclear patterns.'')
      in case dict_get explanations prediction of
           Inl e \<Rightarrow> Inl e
         | Inr r \<Rightarrow> Inr \<lparr>reasoning = r,
                         confidence_explanation = confidence_explanation1,
                         disclaimer = ''This analysis is for informational purposes only and is not a substitute for professional medical advice, diagnosis, or treatment.''\<rparr>)"

subsection \<open>Requests and responses\<close>

text \<open>A value of the JSON body of a request (arrays, objects and fractions left out).\<close>

datatype json = JNull | JBool bool | JNum int | JStr string

text \<open>\<^verbatim>\<open>request.data\<close> and \<^verbatim>\<open>request.META\<close> are dictionaries;
  \<^verbatim>\<open>d.get(k, default)\<close> is \<open>dict_get_default\<close>.\<close>

record request =
  data :: "(string \<times> json) list"
  session_key :: "string option"
  meta :: "(string \<times> string) list"

definition dict_get_default :: "('k \<times> 'v) list \<Rightarrow> 'k \<Rightarrow> 'v \<Rightarrow> 'v" where
  "dict_get_default d k dflt = (case map_of d k of None \<Rightarrow> dflt | Some v \<Rightarrow> v)"

text \<open>The truth value of a JSON value in \<^verbatim>\<open>if v:\<close>.\<close>

fun truthy :: "json \<Rightarrow> bool" where
  "truthy JNull = False"
| "truthy (JBool b) = b"
| "truthy (JNum n) = (n \<noteq> 0)"
| "truthy (JStr s) = (s \<noteq> [])"

text \<open>\<^verbatim>\<open>round(x, ndigits)\<close>\<close>

definition py_round :: "real \<Rightarrow> nat \<Rightarrow> real" where
  "py_round x ndigits = of_int (round_half_even (x * 10 ^ ndigits)) / 10 ^ ndigits"

record analysis_response =
  r_id :: string
  r_prediction :: string
  r_confidence :: real
  r_probabilities :: probs
  r_model_used :: json
  r_processing_time :: real
  r_text_length :: nat
  r_message :: string
  r_recommendations :: "string list"
  r_explanation :: "explanation option"

text \<open>The body of a response: \<^verbatim>\<open>{'error': text}\<close>, \<^verbatim>\<open>{'error': str(e)}\<close> for an
  exception \<open>e\<close>, \<^verbatim>\<open>{'message': text}\<close>, or the result of an analysis.\<close>

datatype body =
  ErrorText string
| ErrorOf py_error
| Message string
| AnalysisResult analysis_response

record response =
  status :: nat
  body :: body

definition HTTP_200_OK :: nat where "HTTP_200_OK = 200"
definition HTTP_201_CREATED :: nat where "HTTP_201_CREATED = 201"
definition HTTP_400_BAD_REQUEST :: nat where "HTTP_400_BAD_REQUEST = 400"
definition HTTP_500_INTERNAL_SERVER_ERROR :: nat where "HTTP_500_INTERNAL_SERVER_ERROR = 500"

subsection \<open>The store of the API\<close>

text \<open>Modelled from the spec: \<^verbatim>\<open>core/models.py\<close> (the classes \<^verbatim>\<open>TextAnalysis\<close> and
  \<^verbatim>\<open>UserFeedback\<close>) is not among the sources. The fields of an analysis are those that
  the \<^verbatim>\<open>create\<close> call of \<^verbatim>\<open>analyze_text\<close> passes; its identifier is generated by the
  system and unique. A feedback refers to one analysis and has a star rating, an integer
  from 1 to 5.\<close>

record text_analysis =
  ta_id :: nat
  text_input :: string
  ta_text_length :: nat
  ta_prediction :: string
  confidence_score :: real
  ta_probabilities :: probs
  ta_model_used :: json
  processing_time :: real
  session_id :: string
  ip_address :: "string option"
  user_agent :: string

record user_feedback =
  uf_id :: nat
  uf_analysis :: nat
  uf_rating :: int

record api_store =
  text_analyses :: "text_analysis list"
  user_feedbacks :: "user_feedback list"

definition fresh_id :: "nat list \<Rightarrow> nat" where
  "fresh_id ids = Suc (fold max ids 0)"

text \<open>Modelled from the spec: the manager of \<^verbatim>\<open>TextAnalysis\<close> is missing with its class.
  \<^verbatim>\<open>TextAnalysis.objects.get(id=v)\<close> is the analysis that \<open>v\<close> resolves to, and fails with
  a not-found error when \<open>v\<close> resolves to no record of the store. How a value of a request
  is read as an identifier belongs to the missing class: \<open>resolves v k\<close> says that the value
  \<open>v\<close> names the identifier \<open>k\<close>, and is a parameter.\<close>

definition objects_get ::
  "(json \<Rightarrow> nat \<Rightarrow> bool) \<Rightarrow> text_analysis list \<Rightarrow> json \<Rightarrow> py_error + text_analysis" where
  "objects_get resolves rows v =
     (case filter (\<lambda>a. resolves v (ta_id a)) rows of
        [] \<Rightarrow> Inl DoesNotExist
      | [a] \<Rightarrow> Inr a
      | _ \<Rightarrow> Inl MultipleObjectsReturned)"


definition create_feedback :: "api_store \<Rightarrow> text_analysis \<Rightarrow> json \<Rightarrow> py_error + api_store" where
  "create_feedback store analysis v =
     (case v of
        JNum r \<Rightarrow>
          if 1 \<le> r \<and> r \<le> 5
          then Inr (store\<lparr>user_feedbacks := user_feedbacks store @
                      [\<lparr>uf_id = fresh_id (map uf_id (user_feedbacks store)),
                        uf_analysis = ta_id analysis, uf_rating = r\<rparr>]\<rparr>)
          else Inl ValidationError
      | _ \<Rightarrow> Inl ValidationError)"

subsection \<open>The endpoints of the API\<close>

text \<open>What a call of \<^verbatim>\<open>analyze_text\<close> reads from outside the request: the draw of
  the confidence, the draws of the probabilities, the time the processing took
  (\<^verbatim>\<open>time.time() - start_time\<close>) and \<^verbatim>\<open>str(uuid.uuid4())\<close>. The sleep only delays.\<close>

record env =
  u_confidence :: real
  us_probabilities :: "nat \<Rightarrow> real"
  elapsed :: real
  uuid4 :: string

definition get_client_ip :: "request \<Rightarrow> string option" where
  "get_client_ip request =
     (case map_of (meta request) ''HTTP_X_FORWARDED_FOR'' of
        None \<Rightarrow> map_of (meta request) ''REMOTE_ADDR''
      | Some x_forwarded_for \<Rightarrow>
          if x_forwarded_for \<noteq> []
          then Some (takeWhile (\<lambda>c. c \<noteq> CHR '','') x_forwarded_for)
          else map_of (meta request) ''REMOTE_ADDR'')"

definition analysis_failed :: response where
  "analysis_failed =
     \<lparr>status = HTTP_500_INTERNAL_SERVER_ERROR,
      body = ErrorText ''Analysis failed. Please try again.''\<rparr>"

text \<open>\<^verbatim>\<open>analyze_text\<close>: the store before, the store after and the response. Every
  exception inside the \<^verbatim>\<open>try\<close> ends in \<open>analysis_failed\<close>; \<^verbatim>\<open>.strip()\<close> raises
  \<^verbatim>\<open>AttributeError\<close> on a value that is not a string.\<close>

definition analyze_text :: "env \<Rightarrow> api_store \<Rightarrow> request \<Rightarrow> api_store \<times> response" where
  "analyze_text env store request =
     (case dict_get_default (data request) ''text'' (JStr []) of
        JStr raw \<Rightarrow>
          (let text = strip raw;
               model_choice = dict_get_default (data request) ''model'' (JStr ''baseline'');
               include_explanation = dict_get_default (data request) ''explain'' (JBool False)
           in if text = []
              then (store, \<lparr>status = HTTP_400_BAD_REQUEST,
                            body = ErrorText ''Text input is required''\<rparr>)
              else if length text < 10
              then (store, \<lparr>status = HTTP_400_BAD_REQUEST,
                            body = ErrorText ''Text must be at least 10 characters long''\<rparr>)
              else if length text > 2000
              then (store, \<lparr>status = HTTP_400_BAD_REQUEST,
                            body = ErrorText ''Text must be less than 2000 characters''\<rparr>)
              else
                (let (prediction, confidence, probabilities) =
                       generate_demo_prediction (u_confidence env) (us_probabilities env) text;
                     analysis =
                       \<lparr>ta_id = fresh_id (map ta_id (text_analyses store)),
                        text_input = text,
                        ta_text_length = length text,
                        ta_prediction = prediction,
                        confidence_score = confidence,
                        ta_probabilities = probabilities,
                        ta_model_used = model_choice,
                        processing_time = elapsed env,
                        session_id =
                          (case session_key request of
                             None \<Rightarrow> take 8 (uuid4 env)
                           | Some k \<Rightarrow> if k \<noteq> [] then k else take 8 (uuid4 env)),
                        ip_address = get_client_ip request,
                        user_agent = dict_get_default (meta request) ''HTTP_USER_AGENT'' []\<rparr>;
                     store' = store\<lparr>text_analyses := text_analyses store @ [analysis]\<rparr>
                 in case generate_message prediction confidence of
                      Inl e \<Rightarrow> (store', analysis_failed)
                    | Inr message \<Rightarrow>
                 (case generate_recommendations prediction of
                      Inl e \<Rightarrow> (store', analysis_failed)
                    | Inr recs \<Rightarrow>
                 (let response_data =
                        \<lparr>r_id = str_nat (ta_id analysis),
                         r_prediction = prediction,
                         r_confidence = confidence,
                         r_probabilities = probabilities,
                         r_model_used = model_choice,
                         r_processing_time = py_round (elapsed env) 3,
                         r_text_length = length text,
                         r_message = message,
                         r_recommendations = recs,
                         r_explanation = None\<rparr>
                  in if truthy include_explanation
                     then (case generate_explanation prediction confidence text of
                             Inl e \<Rightarrow> (store', analysis_failed)
                           | Inr ex \<Rightarrow>
                               (store', \<lparr>status = HTTP_200_OK,
                                         body = AnalysisResult
                                           (response_data\<lparr>r_explanation := Some ex\<rparr>)\<rparr>))
                     else (store', \<lparr>status = HTTP_200_OK,
                                    body = AnalysisResult response_data\<rparr>)))))
      | _ \<Rightarrow> (store, analysis_failed))"

text \<open>\<^verbatim>\<open>submit_feedback\<close>: \<^verbatim>\<open>request.data.get(k)\<close> is \<^verbatim>\<open>None\<close> for a missing key; every
  exception ends in a response of status 500 that carries \<^verbatim>\<open>str(e)\<close>. The parameter
  \<open>resolves\<close> is that of \<open>objects_get\<close>.\<close>

definition submit_feedback ::
  "(json \<Rightarrow> nat \<Rightarrow> bool) \<Rightarrow> api_store \<Rightarrow> request \<Rightarrow> api_store \<times> response" where
  "submit_feedback resolves store request =
     (let analysis_id = dict_get_default (data request) ''analysis_id'' JNull;
          rating = dict_get_default (data request) ''rating'' JNull
      in case objects_get resolves (text_analyses store) analysis_id of
           Inl e \<Rightarrow> (store, \<lparr>status = HTTP_500_INTERNAL_SERVER_ERROR, body = ErrorOf e\<rparr>)
         | Inr analysis \<Rightarrow>
             (case create_feedback store analysis rating of
                Inl e \<Rightarrow> (store, \<lparr>status = HTTP_500_INTERNAL_SERVER_ERROR, body = ErrorOf e\<rparr>)
              | Inr store' \<Rightarrow>
                  (store', \<lparr>status = HTTP_201_CREATED, body = Message ''Feedback submitted''\<rparr>)))"

subsection \<open>The store of the reports\<close>

text \<open>\<^verbatim>\<open>analytics/models.py\<close>. A \<^verbatim>\<open>created_at\<close> is a number of seconds since the epoch in
  UTC (\<^verbatim>\<open>TIME_ZONE = 'UTC'\<close>), a date the number of its day.\<close>

record analysis =
  an_id :: nat
  an_user :: "nat option"
  input_text :: string
  an_prediction :: string
  an_confidence :: "real option"
  an_model_used :: string
  response_time :: "real option"
  an_text_length :: "int option"
  an_created_at :: int

record feedback =
  fb_id :: nat
  fb_analysis :: nat
  fb_user :: "nat option"
  fb_rating :: int
  feedback_text :: "string option"
  fb_created_at :: int

record analytics_store =
  analyses :: "analysis list"
  feedbacks :: "feedback list"

definition date :: "int \<Rightarrow> int" where
  "date t = t div 86400"

subsection \<open>The reports\<close>

record star_stat =
  star :: int
  count :: nat
  percentage :: real

text \<open>The part of the context of \<^verbatim>\<open>reports_view\<close> made of the core statistics, the
  stars and the recent activity. A label holds its \<^verbatim>\<open>day\<close>; \<^verbatim>\<open>strftime\<close> then writes
  it as text.\<close>

record report_context =
  total_analyses :: nat
  total_feedback :: nat
  avg_rating :: real
  feedback_rate :: real
  star_stats :: "star_stat list"
  recent_activity_labels :: "int list"
  recent_activity_data :: "nat list"

text \<open>\<^verbatim>\<open>Analysis.objects.filter(created_at__date__gte=last_30)\<close>, grouped by day, counted,
  ordered by day.\<close>

definition activity_qs :: "analysis list \<Rightarrow> int \<Rightarrow> (int \<times> nat) list" where
  "activity_qs rows last_30 =
     (let days = filter (\<lambda>d. d \<ge> last_30) (map (\<lambda>a. date (an_created_at a)) rows)
      in map (\<lambda>day. (day, length (filter (\<lambda>d. d = day) days))) (sort (remdups days)))"

definition reports_view :: "analytics_store \<Rightarrow> int \<Rightarrow> report_context" where
  "reports_view store now =
     (let total_analyses = length (analyses store);
          feedback_qs = feedbacks store;
          total_feedback = length feedback_qs;
          feedback_rate =
            (if total_analyses \<noteq> 0
             then py_round ((real total_feedback / real total_analyses) * 100) 2 else 0);
          avg_rating =
            (if feedback_qs = [] then 0
             else real_of_int (sum_list (map fb_rating feedback_qs)) / real (length feedback_qs));
          star_stats =
            map (\<lambda>star.
                   let count = length (filter (\<lambda>f. fb_rating f = star) feedback_qs);
                       percentage =
                         (if total_feedback \<noteq> 0
                          then py_round ((real count / real total_feedback) * 100) 2 else 0)
                   in \<lparr>star = star, count = count, percentage = percentage\<rparr>)
                [5, 4, 3, 2, 1];
          today = date now;
          last_30 = today - 29;
          qs = activity_qs (analyses store) last_30;
          days = map (\<lambda>i. last_30 + int i) [0..<30];
          labels = days;
          data = map (\<lambda>day. case find (\<lambda>a. fst a = day) qs of
                                None \<Rightarrow> 0 | Some match \<Rightarrow> snd match) days
      in \<lparr>total_analyses = total_analyses,
          total_feedback = total_feedback,
          avg_rating = avg_rating,
          feedback_rate = feedback_rate,
          star_stats = star_stats,
          recent_activity_labels = labels,
          recent_activity_data = data\<rparr>)"

subsection \<open>Inputs of the examples\<close>

text \<open>A random source that returns the same value at every draw.\<close>

definition constant_draws :: "real \<Rightarrow> nat \<Rightarrow> real" where
  "constant_draws u i = u"

definition example_text :: string where
  "example_text = ''I feel so anxious and overwhelmed about everything''"

definition tie_text :: string where
  "tie_text = ''So sad and worried''"

definition empty_store :: api_store where
  "empty_store = \<lparr>text_analyses = [], user_feedbacks = []\<rparr>"

definition text_request :: "string \<Rightarrow> request" where
  "text_request s = \<lparr>data = [(''text'', JStr s)], session_key = None, meta = []\<rparr>"

text \<open>Identifiers written as numbers: a value of a request names the identifier \<open>k\<close> when
  it is the JSON number \<open>k\<close>.\<close>

definition number_id :: "json \<Rightarrow> nat \<Rightarrow> bool" where
  "number_id v k = (v = JNum (int k))"

definition feedback_request :: "int \<Rightarrow> int \<Rightarrow> request" where
  "feedback_request k r =
     \<lparr>data = [(''analysis_id'', JNum k), (''rating'', JNum r)], session_key = None, meta = []\<rparr>"

definition example_env :: env where
  "example_env = \<lparr>u_confidence = 0.5, us_probabilities = constant_draws 0.5, elapsed = 0.5,
                   uuid4 = ''123e4567-e89b-42d3-a456-426614174000''\<rparr>"

text \<open>The store after one analysis of the example text.\<close>

definition one_analysis_store :: api_store where
  "one_analysis_store =
     \<lparr>text_analyses =
        [\<lparr>ta_id = 1, text_input = example_text, ta_text_length = 50,
          ta_prediction = ''anxiety'', confidence_score = 0.8,
          ta_probabilities = [(''neutral'', 0.1), (''depression'', 0.1), (''anxiety'', 0.8)],
          ta_model_used = JStr ''baseline'', processing_time = 0.5,
          session_id = ''123e4567'', ip_address = None, user_agent = []\<rparr>],
      user_feedbacks = []\<rparr>"

text \<open>The words of the specification, "rounded to 2 decimals": \<open>r\<close> is a multiple of
  1/100 at a distance of at most 1/200 from \<open>x\<close>.\<close>

definition rounded_to_2_decimals :: "real \<Rightarrow> real \<Rightarrow> bool" where
  "rounded_to_2_decimals x r = (of_int \<lfloor>r * 100\<rfloor> = r * 100 \<and> \<bar>r - x\<bar> \<le> 1 / 200)"

text \<open>Stores of the reports: ten analyses on the ten days before 2025-11-04 and four
  feedbacks rated 5, 5, 4 and 3; no analysis and one feedback.\<close>

definition analysis_at :: "nat \<Rightarrow> int \<Rightarrow> analysis" where
  "analysis_at i t =
     \<lparr>an_id = i, an_user = None, input_text = example_text, an_prediction = ''neutral'',
      an_confidence = Some 0.8, an_model_used = ''baseline'', response_time = Some 0.5,
      an_text_length = Some 50, an_created_at = t\<rparr>"

definition feedback_rated :: "nat \<Rightarrow> int \<Rightarrow> feedback" where
  "feedback_rated i r =
     \<lparr>fb_id = i, fb_analysis = i, fb_user = None, fb_rating = r, feedback_text = None,
      fb_created_at = 1762214400\<rparr>"

definition example_now :: int where
  "example_now = 1762214400 + 3600"

definition example_reports_store :: analytics_store where
  "example_reports_store =
     \<lparr>analyses =
        [analysis_at 1 (1762214400 - 86400 * 1), analysis_at 2 (1762214400 - 86400 * 2),
         analysis_at 3 (1762214400 - 86400 * 3), analysis_at 4 (1762214400 - 86400 * 4),
         analysis_at 5 (1762214400 - 86400 * 5), analysis_at 6 (1762214400 - 86400 * 6),
         analysis_at 7 (1762214400 - 86400 * 7), analysis_at 8 (1762214400 - 86400 * 8),
         analysis_at 9 (1762214400 - 86400 * 9), analysis_at 10 (1762214400 - 86400 * 10)],
      feedbacks = [feedback_rated 1 5, feedback_rated 2 5, feedback_rated 3 4, feedback_rated 4 3]\<rparr>"


definition no_analyses_store :: analytics_store where
  "no_analyses_store = \<lparr>analyses = [], feedbacks = [feedback_rated 1 5]\<rparr>"


section \<open>Properties of the classifier\<close>

subsection \<open>Auxiliary facts\<close>

lemma uniform_between:
  assumes "unit_draw u"
  shows "min a b \<le> uniform a b u" "uniform a b u \<le> max a b"
proof -
  from assms have u: "0 \<le> u" "u \<le> 1" by (simp_all add: unit_draw_def)
  have eq: "uniform a b u = (1 - u) * a + u * b" by (simp add: uniform_def algebra_simps)
  have "(1 - u) * min a b \<le> (1 - u) * a" "u * min a b \<le> u * b"
    using u by (simp_all add: mult_left_mono)
  then have "(1 - u) * min a b + u * min a b \<le> (1 - u) * a + u * b" by linarith
  then show "min a b \<le> uniform a b u" unfolding eq by (simp add: algebra_simps)
  have "(1 - u) * a \<le> (1 - u) * max a b" "u * b \<le> u * max a b"
    using u by (simp_all add: mult_left_mono)
  then have "(1 - u) * a + u * b \<le> (1 - u) * max a b + u * max a b" by linarith
  then show "uniform a b u \<le> max a b" unfolding eq by (simp add: algebra_simps)
qed

text \<open>With one of the three labels the loop runs twice: one draw, then the leftover.\<close>

lemma gp_neutral:
  "generate_probabilities us ''neutral'' c =
     [(''neutral'', c), (''depression'', uniform 0.05 (1 - c - 0.05) (us 0)),
      (''anxiety'', 1 - c - uniform 0.05 (1 - c - 0.05) (us 0))]"
  by (simp add: generate_probabilities_def Let_def)

lemma gp_depression:
  "generate_probabilities us ''depression'' c =
     [(''neutral'', uniform 0.05 (1 - c - 0.05) (us 0)), (''depression'', c),
      (''anxiety'', 1 - c - uniform 0.05 (1 - c - 0.05) (us 0))]"
  by (simp add: generate_probabilities_def Let_def)

lemma gp_anxiety:
  "generate_probabilities us ''anxiety'' c =
     [(''neutral'', uniform 0.05 (1 - c - 0.05) (us 0)),
      (''depression'', 1 - c - uniform 0.05 (1 - c - 0.05) (us 0)), (''anxiety'', c)]"
  by (simp add: generate_probabilities_def Let_def)

lemma gp_sum:
  assumes "prediction \<in> {''neutral'', ''depression'', ''anxiety''}"
  shows "sum_list (map snd (generate_probabilities us prediction confidence)) = 1"
  using assms by (auto simp: gp_neutral gp_depression gp_anxiety)

lemma split_bounds:
  assumes "unit_draw u" "0.3 \<le> c" "c \<le> 0.95"
  shows "0 \<le> uniform 0.05 (1 - c - 0.05) u" "uniform 0.05 (1 - c - 0.05) u \<le> 1 - c"
proof -
  have lo: "min 0.05 (1 - c - 0.05) \<le> uniform 0.05 (1 - c - 0.05) u"
    and hi: "uniform 0.05 (1 - c - 0.05) u \<le> max 0.05 (1 - c - 0.05)"
    using uniform_between [OF assms(1)] by blast+
  show "0 \<le> uniform 0.05 (1 - c - 0.05) u"
    using lo assms(2,3) by (simp add: min_def split: if_splits)
  show "uniform 0.05 (1 - c - 0.05) u \<le> 1 - c"
    using hi assms(2,3) by (simp add: max_def split: if_splits)
qed

lemma choose_label_cases:
  "fst (choose_label d a n) \<in> {''depression'', ''anxiety'', ''neutral''}"
  by (simp add: choose_label_def)

lemma gdp_fst:
  "fst (generate_demo_prediction u us text) =
     fst (choose_label (score depression_keywords (lower text))
            (score anxiety_keywords (lower text)) (score neutral_keywords (lower text)))"
  by (simp add: generate_demo_prediction_def Let_def split: prod.splits)

lemma gdp_conf:
  "fst (snd (generate_demo_prediction u us text)) =
     min 0.95 (max 0.3
       (snd (choose_label (score depression_keywords (lower text))
               (score anxiety_keywords (lower text)) (score neutral_keywords (lower text)))
        + uniform (- 0.1) 0.1 u))"
  by (simp add: generate_demo_prediction_def Let_def split: prod.splits)

lemma gdp_probs:
  "snd (snd (generate_demo_prediction u us text)) =
     generate_probabilities us (fst (generate_demo_prediction u us text))
       (fst (snd (generate_demo_prediction u us text)))"
  by (simp add: generate_demo_prediction_def Let_def split: prod.splits)

lemma ex_scores:
  "score depression_keywords (lower example_text) = 0"
  "score anxiety_keywords (lower example_text) = 2"
  "score neutral_keywords (lower example_text) = 0"
  by (simp_all add: score_def example_text_def lower_def lower_char_def
        depression_keywords_def anxiety_keywords_def neutral_keywords_def)

lemma tie_scores:
  "score depression_keywords (lower tie_text) = 1"
  "score anxiety_keywords (lower tie_text) = 1"
  "score neutral_keywords (lower tie_text) = 0"
  by (simp_all add: score_def tie_text_def lower_def lower_char_def
        depression_keywords_def anxiety_keywords_def neutral_keywords_def)

lemma ex_label: "fst (generate_demo_prediction u us example_text) = ''anxiety''"
  by (simp add: gdp_fst ex_scores choose_label_def)

lemma ex_conf:
  "unit_draw u \<Longrightarrow> fst (snd (generate_demo_prediction u us example_text)) = 0.7 + 0.2 * u"
  by (simp add: gdp_conf ex_scores choose_label_def uniform_def unit_draw_def min_def max_def)

lemma lookups_find:
  assumes "p \<in> {''depression'', ''anxiety'', ''neutral''}"
  shows "\<exists>m. generate_message p c = Inr m"
    and "\<exists>r. generate_recommendations p = Inr r"
    and "\<exists>e. generate_explanation p c t = Inr e"
proof -
  from assms consider "p = ''depression''" | "p = ''anxiety''" | "p = ''neutral''" by auto
  note cs = this
  show "\<exists>m. generate_message p c = Inr m"
    by (rule cs) (simp_all add: generate_message_def messages_def dict_get_def)
  show "\<exists>r. generate_recommendations p = Inr r"
    by (rule cs) (simp_all add: generate_recommendations_def recommendations_def dict_get_def)
  show "\<exists>e. generate_explanation p c t = Inr e"
    by (rule cs) (simp_all add: generate_explanation_def explanations_def dict_get_def Let_def)
qed

subsection \<open>The probability distribution\<close>

text \<open>
  Claim C1. For each of the three labels, every confidence that the classifier can return
  (from 0.3 to 0.95) and every draw of the unit interval, the distribution that
  \<^verbatim>\<open>generate_probabilities\<close> returns has no negative value, sums to 1, gives the winning
  label the confidence, and has the three labels as its keys. Numbers are exact reals.
\<close>

theorem generate_probabilities_distribution:
  assumes "prediction \<in> {''neutral'', ''depression'', ''anxiety''}"
    and "0.3 \<le> confidence" and "confidence \<le> 0.95"
    and "\<forall>i. unit_draw (us i)"
  shows "(\<forall>p \<in> set (map snd (generate_probabilities us prediction confidence)). 0 \<le> p)
       \<and> sum_list (map snd (generate_probabilities us prediction confidence)) = 1
       \<and> map_of (generate_probabilities us prediction confidence) prediction = Some confidence
       \<and> map fst (generate_probabilities us prediction confidence) =
           [''neutral'', ''depression'', ''anxiety'']"
proof -
  have u: "unit_draw (us 0)" using assms(4) by simp
  note b = split_bounds [OF u assms(2,3)]
  from assms(1) consider "prediction = ''neutral''" | "prediction = ''depression''"
    | "prediction = ''anxiety''" by auto
  then show ?thesis
  proof cases
    case 1 then show ?thesis using b assms(2) by (simp add: gp_neutral)
  next
    case 2 then show ?thesis using b assms(2) by (simp add: gp_depression)
  next
    case 3 then show ?thesis using b assms(2) by (simp add: gp_anxiety)
  qed
qed

theorem generate_probabilities_distribution_witness:
  "''anxiety'' \<in> {''neutral'', ''depression'', ''anxiety''}
   \<and> (0.3::real) \<le> 0.8 \<and> (0.8::real) \<le> 0.95
   \<and> (\<forall>i. unit_draw (constant_draws 0.5 i))
   \<and> generate_probabilities (constant_draws 0.5) ''anxiety'' 0.8 =
       [(''neutral'', 0.1), (''depression'', 0.1), (''anxiety'', 0.8)]
   \<and> sum_list (map snd (generate_probabilities (constant_draws 0.5) ''anxiety'' 0.8)) = 1"
  using generate_probabilities_distribution [of "''anxiety''" "0.8" "constant_draws 0.5"]
  by (simp add: unit_draw_def constant_draws_def gp_anxiety uniform_def)

subsection \<open>The label and the confidence\<close>

text \<open>
  Claim C4. For every text that passed the validation (it is a trimmed text of 10 to 2000
  characters) and every draw of the unit interval, the label that
  \<^verbatim>\<open>generate_demo_prediction\<close> returns is one of depression, anxiety and neutral, and the
  confidence lies between 0.3 and 0.95, both included.
\<close>

theorem classifier_label_and_confidence:
  assumes "text = strip raw" and "10 \<le> length text" and "length text \<le> 2000"
    and "unit_draw u"
  shows "fst (generate_demo_prediction u us text) \<in> {''depression'', ''anxiety'', ''neutral''}
       \<and> 0.3 \<le> fst (snd (generate_demo_prediction u us text))
       \<and> fst (snd (generate_demo_prediction u us text)) \<le> 0.95"
proof -
  have "fst (generate_demo_prediction u us text) \<in> {''depression'', ''anxiety'', ''neutral''}"
    unfolding gdp_fst by (rule choose_label_cases)
  moreover have "(0.3::real) \<le> min 0.95 (max 0.3 x)" for x
    by (simp add: min_def max_def)
  moreover have "min (0.95::real) (max 0.3 x) \<le> 0.95" for x
    by (rule min.cobounded1)
  ultimately show ?thesis unfolding gdp_conf by blast
qed

theorem classifier_label_and_confidence_witness:
  "example_text = strip example_text
   \<and> 10 \<le> length example_text \<and> length example_text \<le> 2000 \<and> unit_draw 0.5
   \<and> fst (generate_demo_prediction 0.5 (constant_draws 0.5) example_text)
       \<in> {''depression'', ''anxiety'', ''neutral''}
   \<and> 0.3 \<le> fst (snd (generate_demo_prediction 0.5 (constant_draws 0.5) example_text))
   \<and> fst (snd (generate_demo_prediction 0.5 (constant_draws 0.5) example_text)) \<le> 0.95"
proof -
  have a: "example_text = strip example_text"
    by (simp add: example_text_def strip_def isspace_def)
  have b: "10 \<le> length example_text" "length example_text \<le> 2000"
    by (simp_all add: example_text_def)
  have c: "unit_draw 0.5" by (simp add: unit_draw_def)
  show ?thesis
    using classifier_label_and_confidence [OF a b c, of "constant_draws 0.5"] a b c
    by blast
qed

subsection \<open>Ties\<close>

text \<open>
  Claim C5. When no category has a keyword count strictly above both others (the leading
  categories tie, or every count is zero), the predicted label is neutral.
\<close>

theorem ties_default_to_neutral:
  assumes "\<not> (score depression_keywords (lower text) > score anxiety_keywords (lower text)
              \<and> score depression_keywords (lower text) > score neutral_keywords (lower text))"
    and "\<not> (score anxiety_keywords (lower text) > score depression_keywords (lower text)
              \<and> score anxiety_keywords (lower text) > score neutral_keywords (lower text))"
    and "\<not> (score neutral_keywords (lower text) > score depression_keywords (lower text)
              \<and> score neutral_keywords (lower text) > score anxiety_keywords (lower text))"
  shows "fst (generate_demo_prediction u us text) = ''neutral''"
  using assms(1,2) unfolding gdp_fst choose_label_def by simp

theorem ties_default_to_neutral_witness:
  "score depression_keywords (lower tie_text) = score anxiety_keywords (lower tie_text)
   \<and> score neutral_keywords (lower tie_text) < score anxiety_keywords (lower tie_text)
   \<and> fst (generate_demo_prediction 0.5 (constant_draws 0.5) tie_text) = ''neutral''"
  using ties_default_to_neutral [of tie_text "0.5" "constant_draws 0.5"]
  by (simp add: tie_scores)

subsection \<open>The example of the specification\<close>

text \<open>
  Claim C9, as stated, fails: with the draw 0 the perturbation is -0.1 and the confidence of
  the example text is 0.7, which is not above 0.7.
\<close>

theorem example_text_counterexample:
  "unit_draw 0
   \<and> fst (snd (generate_demo_prediction 0 (constant_draws 0) example_text)) = 0.7
   \<and> \<not> (0.7 < fst (snd (generate_demo_prediction 0 (constant_draws 0) example_text)))"
proof -
  have u: "unit_draw 0" by (simp add: unit_draw_def)
  show ?thesis using ex_conf [OF u, of "constant_draws 0"] u by simp
qed

text \<open>
  Claim C9, amended. For the example text and every draw of the unit interval, the label is
  anxiety, the confidence is at least 0.7, and the probabilities sum to 1.
\<close>

theorem example_text_classified:
  assumes "unit_draw u"
  shows "fst (generate_demo_prediction u us example_text) = ''anxiety''
       \<and> 0.7 \<le> fst (snd (generate_demo_prediction u us example_text))
       \<and> sum_list (map snd (snd (snd (generate_demo_prediction u us example_text)))) = 1"
proof -
  have "sum_list (map snd (snd (snd (generate_demo_prediction u us example_text)))) = 1"
    unfolding gdp_probs ex_label by (rule gp_sum) simp
  then show ?thesis
    using assms by (simp add: ex_label ex_conf [OF assms]) (simp add: unit_draw_def)
qed

theorem example_text_classified_witness:
  "unit_draw 0.5
   \<and> generate_demo_prediction 0.5 (constant_draws 0.5) example_text =
       (''anxiety'', 0.8, [(''neutral'', 0.1), (''depression'', 0.1), (''anxiety'', 0.8)])"
proof -
  have u: "unit_draw 0.5" by (simp add: unit_draw_def)
  have c: "fst (snd (generate_demo_prediction 0.5 (constant_draws 0.5) example_text)) = 0.8"
    using ex_conf [OF u, of "constant_draws 0.5"] by simp
  have "generate_demo_prediction 0.5 (constant_draws 0.5) example_text =
     (fst (generate_demo_prediction 0.5 (constant_draws 0.5) example_text),
      fst (snd (generate_demo_prediction 0.5 (constant_draws 0.5) example_text)),
      snd (snd (generate_demo_prediction 0.5 (constant_draws 0.5) example_text)))" by simp
  also have "\<dots> =
     (''anxiety'', 0.8, [(''neutral'', 0.1), (''depression'', 0.1), (''anxiety'', 0.8)])"
    using example_text_classified [OF u, of "constant_draws 0.5"]
    unfolding gdp_probs c by (simp add: gp_anxiety uniform_def constant_draws_def)
  finally show ?thesis using u by simp
qed

subsection \<open>The lookups\<close>

text \<open>
  Claim C10. The label of every output of \<^verbatim>\<open>generate_demo_prediction\<close> is depression, anxiety
  or neutral, so with that label and any confidence the lookups of \<^verbatim>\<open>generate_message\<close>,
  \<^verbatim>\<open>generate_recommendations\<close> and \<^verbatim>\<open>generate_explanation\<close> find their key: none returns
  an error.
\<close>

theorem lookups_never_raise:
  "fst (generate_demo_prediction u us text) \<in> {''depression'', ''anxiety'', ''neutral''}
   \<and> (\<exists>m. generate_message (fst (generate_demo_prediction u us text)) c = Inr m)
   \<and> (\<exists>r. generate_recommendations (fst (generate_demo_prediction u us text)) = Inr r)
   \<and> (\<exists>e. generate_explanation (fst (generate_demo_prediction u us text)) c t = Inr e)"
proof -
  have p: "fst (generate_demo_prediction u us text) \<in> {''depression'', ''anxiety'', ''neutral''}"
    unfolding gdp_fst by (rule choose_label_cases)
  show ?thesis using p lookups_find [OF p] by blast
qed

section \<open>Properties of the endpoints\<close>

subsection \<open>Validation of the text\<close>

lemma analyze_text_invalid:
  assumes "dict_get_default (data request) ''text'' (JStr []) = JStr s"
    and "strip s = [] \<or> length (strip s) < 10 \<or> 2000 < length (strip s)"
  shows "fst (analyze_text env store request) = store"
    and "status (snd (analyze_text env store request)) = 400"
proof -
  have "analyze_text env store request =
     (if strip s = []
      then (store, \<lparr>status = HTTP_400_BAD_REQUEST, body = ErrorText ''Text input is required''\<rparr>)
      else if length (strip s) < 10
      then (store, \<lparr>status = HTTP_400_BAD_REQUEST,
                    body = ErrorText ''Text must be at least 10 characters long''\<rparr>)
      else (store, \<lparr>status = HTTP_400_BAD_REQUEST,
                    body = ErrorText ''Text must be less than 2000 characters''\<rparr>))"
    using assms(2) unfolding analyze_text_def assms(1) json.case Let_def
    by (elim disjE) simp_all
  then show "fst (analyze_text env store request) = store"
    and "status (snd (analyze_text env store request)) = 400"
    by (simp_all add: HTTP_400_BAD_REQUEST_def)
qed

text \<open>
  Claim C2. When the text of a request is missing, or is a string that after trimming is
  empty, shorter than 10 characters or longer than 2000 characters, \<^verbatim>\<open>analyze_text\<close> answers
  with status 400 and leaves the store as it was: no analysis is persisted.
\<close>

theorem analyze_text_rejects_invalid:
  assumes "map_of (data request) ''text'' = None
         \<or> (\<exists>s. map_of (data request) ''text'' = Some (JStr s)
                \<and> (strip s = [] \<or> length (strip s) < 10 \<or> 2000 < length (strip s)))"
  shows "status (snd (analyze_text env store request)) = 400
       \<and> fst (analyze_text env store request) = store"
proof -
  from assms obtain s where s: "dict_get_default (data request) ''text'' (JStr []) = JStr s"
    "strip s = [] \<or> length (strip s) < 10 \<or> 2000 < length (strip s)"
    by (auto simp: dict_get_default_def strip_def)
  show ?thesis using analyze_text_invalid [OF s] by simp
qed

theorem analyze_text_rejects_invalid_witness:
  "map_of (data (text_request ''hi'')) ''text'' = Some (JStr ''hi'')
   \<and> length (strip ''hi'') < 10
   \<and> status (snd (analyze_text example_env empty_store (text_request ''hi''))) = 400
   \<and> fst (analyze_text example_env empty_store (text_request ''hi'')) = empty_store"
proof -
  have a: "map_of (data (text_request ''hi'')) ''text'' = Some (JStr ''hi'')"
    by (simp add: text_request_def)
  have b: "length (strip ''hi'') < 10" by (simp add: strip_def isspace_def)
  show ?thesis
    using analyze_text_rejects_invalid [of "text_request ''hi''" example_env empty_store] a b
    by blast
qed

subsection \<open>Feedback on an analysis that does not exist\<close>

lemma objects_get_none:
  assumes "\<forall>a \<in> set rows. \<not> resolves v (ta_id a)"
  shows "objects_get resolves rows v = Inl DoesNotExist"
proof -
  have "filter (\<lambda>a. resolves v (ta_id a)) rows = []"
    using assms by (simp add: filter_empty_conv)
  then show ?thesis by (simp add: objects_get_def)
qed

lemma fr_get:
  "dict_get_default (data (feedback_request k r)) ''analysis_id'' JNull = JNum k"
  "dict_get_default (data (feedback_request k r)) ''rating'' JNull = JNum r"
  by (simp_all add: feedback_request_def dict_get_default_def)


text \<open>
  Claim C3, as stated, fails: feedback on the analysis 1 of an empty store is answered with
  status 500, which is not a status of the 4xx range.
\<close>

theorem feedback_on_missing_analysis_counterexample:
  "submit_feedback number_id empty_store (feedback_request 1 5) =
       (empty_store, \<lparr>status = 500, body = ErrorOf DoesNotExist\<rparr>)
   \<and> \<not> (400 \<le> status (snd (submit_feedback number_id empty_store (feedback_request 1 5)))
        \<and> status (snd (submit_feedback number_id empty_store (feedback_request 1 5))) < 500)"
  by (simp add: submit_feedback_def fr_get objects_get_def empty_store_def Let_def
      HTTP_500_INTERNAL_SERVER_ERROR_def)

text \<open>
  Claim C3, amended. When the \<^verbatim>\<open>analysis_id\<close> of a feedback submission resolves to no
  analysis of the store, \<^verbatim>\<open>submit_feedback\<close> answers with status 500, the body carries
  the not-found exception, and the store is as it was: no feedback is created.
\<close>

theorem feedback_on_missing_analysis:
  assumes "\<forall>a \<in> set (text_analyses store).
             \<not> resolves (dict_get_default (data request) ''analysis_id'' JNull) (ta_id a)"
  shows "fst (submit_feedback resolves store request) = store
       \<and> status (snd (submit_feedback resolves store request)) = 500
       \<and> body (snd (submit_feedback resolves store request)) = ErrorOf DoesNotExist"
proof -
  have "objects_get resolves (text_analyses store)
          (dict_get_default (data request) ''analysis_id'' JNull) = Inl DoesNotExist"
    using assms
    by (rule objects_get_none [where resolves = resolves and rows = "text_analyses store"
          and v = "dict_get_default (data request) ''analysis_id'' JNull"])
  then show ?thesis
    by (simp add: submit_feedback_def Let_def HTTP_500_INTERNAL_SERVER_ERROR_def)
qed

theorem feedback_on_missing_analysis_witness:
  "map ta_id (text_analyses one_analysis_store) = [1]
   \<and> \<not> number_id (dict_get_default (data (feedback_request 2 5)) ''analysis_id'' JNull) 1
   \<and> fst (submit_feedback number_id one_analysis_store (feedback_request 2 5)) =
       one_analysis_store
   \<and> status (snd (submit_feedback number_id one_analysis_store (feedback_request 2 5))) = 500"
proof -
  have ids: "map ta_id (text_analyses one_analysis_store) = [1]"
    by (simp add: one_analysis_store_def)
  have v: "\<not> number_id (dict_get_default (data (feedback_request 2 5)) ''analysis_id'' JNull) 1"
    by (simp add: fr_get number_id_def)
  have a: "\<forall>a \<in> set (text_analyses one_analysis_store).
      \<not> number_id (dict_get_default (data (feedback_request 2 5)) ''analysis_id'' JNull)
          (ta_id a)"
    by (simp add: fr_get number_id_def one_analysis_store_def)
  show ?thesis
    using feedback_on_missing_analysis [where resolves = number_id
        and store = one_analysis_store and request = "feedback_request 2 5"] a ids v
    by blast
qed

subsection \<open>The rating of a feedback\<close>







section \<open>Properties of the reports\<close>

subsection \<open>The feedback rate\<close>

lemma round_half_even_near: "\<bar>of_int (round_half_even x) - x\<bar> \<le> 1 / 2"
  unfolding round_half_even_def Let_def by (auto simp: abs_if) linarith+

lemma py_round_2: "rounded_to_2_decimals x (py_round x 2)"
proof -
  have "\<bar>of_int (round_half_even (x * 100)) - x * 100\<bar> \<le> 1 / 2"
    by (rule round_half_even_near)
  then have "\<bar>of_int (round_half_even (x * 100)) / 100 - x\<bar> \<le> 1 / 200"
    by (simp add: abs_if field_simps split: if_splits)
  then show ?thesis by (simp add: rounded_to_2_decimals_def py_round_def)
qed

lemma rv_feedback_rate:
  "feedback_rate (reports_view store now) =
     (if length (analyses store) \<noteq> 0
      then py_round ((real (length (feedbacks store)) / real (length (analyses store))) * 100) 2
      else 0)"
  by (simp add: reports_view_def Let_def)

lemma rv_avg_rating:
  "avg_rating (reports_view store now) =
     (if feedbacks store = [] then 0
      else real_of_int (sum_list (map fb_rating (feedbacks store)))
           / real (length (feedbacks store)))"
  by (simp add: reports_view_def Let_def)

lemma rv_star_5:
  "filter (\<lambda>e. star e = 5) (star_stats (reports_view store now)) =
     [\<lparr>star = 5, count = length (filter (\<lambda>f. fb_rating f = 5) (feedbacks store)),
       percentage =
         (if length (feedbacks store) \<noteq> 0
          then py_round ((real (length (filter (\<lambda>f. fb_rating f = 5) (feedbacks store)))
                          / real (length (feedbacks store))) * 100) 2
          else 0)\<rparr>]"
  by (simp add: reports_view_def Let_def)

lemma sum_list_insort: "sum_list (insort x xs) = x + sum_list (xs :: int list)"
  by (induction xs) simp_all

lemma sum_list_sort: "sum_list (sort xs) = sum_list (xs :: int list)"
  by (induction xs) (simp_all add: sum_list_insort)

lemma count_sort:
  "length (filter (\<lambda>f. fb_rating f = r) fs) =
   length (filter (\<lambda>x. x = r) (sort (map fb_rating fs)))"
proof -
  have "length (filter (\<lambda>x. x = r) (sort (map fb_rating fs))) =
        length (filter (\<lambda>x. x = r) (map fb_rating fs))"
    by (simp add: filter_sort)
  also have "\<dots> = length (filter (\<lambda>f. fb_rating f = r) fs)"
    by (simp add: filter_map comp_def)
  finally show ?thesis by simp
qed

lemma py_round_int: "py_round (of_int k) n = of_int k"
proof -
  have "round_half_even (of_int k * 10 ^ n) = k * 10 ^ n"
  proof -
    have "(of_int k * 10 ^ n :: real) = of_int (k * 10 ^ n)" by simp
    then show ?thesis unfolding round_half_even_def Let_def
      by (simp only: floor_of_int) simp
  qed
  then show ?thesis by (simp add: py_round_def)
qed

lemma example_numbers:
  assumes "length (analyses store) = 10"
    and "sort (map fb_rating (feedbacks store)) = [3, 4, 5, 5]"
  shows "feedback_rate (reports_view store now) = 40"
    and "avg_rating (reports_view store now) = 4.25"
    and "filter (\<lambda>e. star e = 5) (star_stats (reports_view store now)) =
           [\<lparr>star = 5, count = 2, percentage = 50\<rparr>]"
proof -
  have len: "length (feedbacks store) = 4"
    using arg_cong [OF assms(2), of length] by simp
  have sum: "sum_list (map fb_rating (feedbacks store)) = 17"
    using sum_list_sort [of "map fb_rating (feedbacks store)"] assms(2) by simp
  have five: "length (filter (\<lambda>f. fb_rating f = 5) (feedbacks store)) = 2"
    unfolding count_sort assms(2) by simp
  have r40: "py_round 40 2 = 40" using py_round_int [of 40 2] by simp
  have r50: "py_round 50 2 = 50" using py_round_int [of 50 2] by simp
  have ne: "feedbacks store \<noteq> []" using len by auto
  show "feedback_rate (reports_view store now) = 40"
    by (simp add: rv_feedback_rate assms(1) len r40)
  show "avg_rating (reports_view store now) = 4.25"
    by (simp add: rv_avg_rating ne len sum)
  show "filter (\<lambda>e. star e = 5) (star_stats (reports_view store now)) =
           [\<lparr>star = 5, count = 2, percentage = 50\<rparr>]"
    by (simp add: rv_star_5 len five r50)
qed

text \<open>
  Claim C6. In every store the reported \<^verbatim>\<open>feedback_rate\<close> is 0 when there is no analysis,
  whatever the number of feedbacks, and otherwise it is
  \<^verbatim>\<open>round((total_feedback / total_analyses) * 100, 2)\<close>, a multiple of 1/100 at most 1/200
  away from the percentage. A store of 10 analyses and 4 feedbacks rated 5, 5, 4 and 3 has
  the feedback rate 40, the average rating 4.25, and the entry of \<^verbatim>\<open>star_stats\<close> for
  5 stars has the count 2 and the percentage 50.
\<close>

theorem reports_feedback_rate:
  "(analyses store = [] \<longrightarrow> feedback_rate (reports_view store now) = 0)
   \<and> (analyses store \<noteq> [] \<longrightarrow>
        feedback_rate (reports_view store now) =
          py_round (real (length (feedbacks store)) / real (length (analyses store)) * 100) 2
        \<and> rounded_to_2_decimals
            (real (length (feedbacks store)) / real (length (analyses store)) * 100)
            (feedback_rate (reports_view store now)))
   \<and> (length (analyses store) = 10 \<and> sort (map fb_rating (feedbacks store)) = [3, 4, 5, 5] \<longrightarrow>
        feedback_rate (reports_view store now) = 40
        \<and> avg_rating (reports_view store now) = 4.25
        \<and> filter (\<lambda>e. star e = 5) (star_stats (reports_view store now)) =
            [\<lparr>star = 5, count = 2, percentage = 50\<rparr>])"
proof (intro conjI impI)
  assume "analyses store = []"
  then show "feedback_rate (reports_view store now) = 0" by (simp add: rv_feedback_rate)
next
  assume ne: "analyses store \<noteq> []"
  then show eq: "feedback_rate (reports_view store now) =
      py_round (real (length (feedbacks store)) / real (length (analyses store)) * 100) 2"
    by (simp add: rv_feedback_rate)
  show "rounded_to_2_decimals
            (real (length (feedbacks store)) / real (length (analyses store)) * 100)
            (feedback_rate (reports_view store now))"
    unfolding eq by (rule py_round_2)
next
  assume a: "length (analyses store) = 10 \<and> sort (map fb_rating (feedbacks store)) = [3, 4, 5, 5]"
  then have a1: "length (analyses store) = 10"
    and a2: "sort (map fb_rating (feedbacks store)) = [3, 4, 5, 5]" by simp_all
  show "feedback_rate (reports_view store now) = 40"
    by (rule example_numbers(1) [OF a1 a2])
  show "avg_rating (reports_view store now) = 4.25"
    by (rule example_numbers(2) [OF a1 a2])
  show "filter (\<lambda>e. star e = 5) (star_stats (reports_view store now)) =
            [\<lparr>star = 5, count = 2, percentage = 50\<rparr>]"
    by (rule example_numbers(3) [OF a1 a2])
qed

lemma example_store_facts:
  "length (analyses example_reports_store) = 10"
  "sort (map fb_rating (feedbacks example_reports_store)) = [3, 4, 5, 5]"
  by (simp_all add: example_reports_store_def feedback_rated_def)

theorem reports_feedback_rate_witness:
  "analyses no_analyses_store = []
   \<and> feedback_rate (reports_view no_analyses_store example_now) = 0
   \<and> analyses example_reports_store \<noteq> []
   \<and> length (analyses example_reports_store) = 10
   \<and> sort (map fb_rating (feedbacks example_reports_store)) = [3, 4, 5, 5]
   \<and> feedback_rate (reports_view example_reports_store example_now) = 40
   \<and> avg_rating (reports_view example_reports_store example_now) = 4.25
   \<and> filter (\<lambda>e. star e = 5) (star_stats (reports_view example_reports_store example_now)) =
       [\<lparr>star = 5, count = 2, percentage = 50\<rparr>]"
proof -
  have a: "analyses no_analyses_store = []" by (simp add: no_analyses_store_def)
  have b: "analyses example_reports_store \<noteq> []"
    using example_store_facts(1) by auto
  show ?thesis
    using reports_feedback_rate [of no_analyses_store example_now]
      reports_feedback_rate [of example_reports_store example_now]
      a b example_store_facts
    by blast
qed

subsection \<open>The recent activity\<close>

lemma rv_labels:
  "recent_activity_labels (reports_view store now) =
     map (\<lambda>i. date now - 29 + int i) [0..<30]"
  by (simp add: reports_view_def Let_def)

lemma rv_data:
  "recent_activity_data (reports_view store now) =
     map (\<lambda>day. case find (\<lambda>a. fst a = day) (activity_qs (analyses store) (date now - 29)) of
                   None \<Rightarrow> 0 | Some match \<Rightarrow> snd match)
         (map (\<lambda>i. date now - 29 + int i) [0..<30])"
  by (simp add: reports_view_def Let_def)

lemma find_eq_in: "find (\<lambda>d. d = day) xs = (if day \<in> set xs then Some day else None)"
  by (induction xs) auto

lemma find_map_key:
  "find (\<lambda>a. fst a = day) (map (\<lambda>d. (d, f d)) xs) =
     (if day \<in> set xs then Some (day, f day) else None)"
  by (induction xs) auto

lemma activity_lookup:
  assumes "last_30 \<le> day"
  shows "(case find (\<lambda>a. fst a = day) (activity_qs rows last_30) of
            None \<Rightarrow> 0 | Some match \<Rightarrow> snd match) =
         length (filter (\<lambda>a. date (an_created_at a) = day) rows)"
proof -
  let ?days = "filter (\<lambda>d. last_30 \<le> d) (map (\<lambda>a. date (an_created_at a)) rows)"
  have cnt: "length (filter (\<lambda>d. d = day) ?days) =
             length (filter (\<lambda>a. date (an_created_at a) = day) rows)"
  proof -
    have "filter (\<lambda>d. d = day) ?days =
          filter (\<lambda>d. d = day) (map (\<lambda>a. date (an_created_at a)) rows)"
      using assms by (auto intro: filter_cong)
    then show ?thesis by (simp add: filter_map comp_def)
  qed
  have qs: "find (\<lambda>a. fst a = day) (activity_qs rows last_30) =
      (if day \<in> set ?days
       then Some (day, length (filter (\<lambda>d. d = day) ?days)) else None)"
    unfolding activity_qs_def Let_def find_map_key by simp
  show ?thesis
  proof (cases "day \<in> set ?days")
    case True
    then have "find (\<lambda>a. fst a = day) (activity_qs rows last_30) =
        Some (day, length (filter (\<lambda>d. d = day) ?days))"
      unfolding qs by (rule if_P)
    then show ?thesis using cnt by simp
  next
    case False
    then have "filter (\<lambda>d. d = day) ?days = []"
      unfolding filter_empty_conv by blast
    then have z: "length (filter (\<lambda>a. date (an_created_at a) = day) rows) = 0"
      using cnt by simp
    from False have "find (\<lambda>a. fst a = day) (activity_qs rows last_30) = None"
      unfolding qs by (rule if_not_P)
    then show ?thesis using z by simp
  qed
qed

text \<open>
  Claim C7. For every store and every current time, the recent activity has 30 labels and
  30 counts; each label is the day after the one before; the last label is today; and the
  count at every position is the number of analyses created on the day of its label, so a
  day without analyses is there with the count 0.
\<close>

theorem recent_activity_series:
  "length (recent_activity_labels (reports_view store now)) = 30
   \<and> length (recent_activity_data (reports_view store now)) = 30
   \<and> (\<forall>i < 29. recent_activity_labels (reports_view store now) ! Suc i =
                 recent_activity_labels (reports_view store now) ! i + 1)
   \<and> last (recent_activity_labels (reports_view store now)) = date now
   \<and> (\<forall>i < 30. recent_activity_data (reports_view store now) ! i =
                 length (filter (\<lambda>a. date (an_created_at a) =
                                       recent_activity_labels (reports_view store now) ! i)
                           (analyses store)))"
proof (intro conjI allI impI)
  show "length (recent_activity_labels (reports_view store now)) = 30"
    by (simp add: rv_labels)
  show "length (recent_activity_data (reports_view store now)) = 30"
    by (simp add: rv_data)
  show "recent_activity_labels (reports_view store now) ! Suc i =
        recent_activity_labels (reports_view store now) ! i + 1" if "i < 29" for i
    using that by (simp add: rv_labels del: upt_Suc)
  show "last (recent_activity_labels (reports_view store now)) = date now"
    by (simp add: rv_labels last_map)
  show "recent_activity_data (reports_view store now) ! i =
        length (filter (\<lambda>a. date (an_created_at a) =
                              recent_activity_labels (reports_view store now) ! i)
                  (analyses store))" if "i < 30" for i
  proof -
    have "recent_activity_data (reports_view store now) ! i =
       (case find (\<lambda>a. fst a = date now - 29 + int i)
               (activity_qs (analyses store) (date now - 29)) of
          None \<Rightarrow> 0 | Some match \<Rightarrow> snd match)"
      using that by (simp add: rv_data del: upt_Suc)
    also have "\<dots> = length (filter (\<lambda>a. date (an_created_at a) = date now - 29 + int i)
                            (analyses store))"
      by (rule activity_lookup) simp
    finally show ?thesis using that by (simp add: rv_labels del: upt_Suc)
  qed
qed

lemma example_today: "date example_now = 20396"
  by (simp add: date_def example_now_def)

lemma example_days:
  "map (\<lambda>a. date (an_created_at a)) (analyses example_reports_store) =
     [20395, 20394, 20393, 20392, 20391, 20390, 20389, 20388, 20387, 20386]"
  by (simp add: example_reports_store_def analysis_at_def date_def)

lemma count_by_day:
  "length (filter (\<lambda>a. date (an_created_at a) = d) rows) =
   length (filter (\<lambda>x. x = d) (map (\<lambda>a. date (an_created_at a)) rows))"
  by (simp add: filter_map comp_def)

theorem recent_activity_series_witness:
  "(0::nat) < 29 \<and> (28::nat) < 30 \<and> (29::nat) < 30
   \<and> length (recent_activity_labels (reports_view example_reports_store example_now)) = 30
   \<and> recent_activity_labels (reports_view example_reports_store example_now) ! Suc 0 =
       recent_activity_labels (reports_view example_reports_store example_now) ! 0 + 1
   \<and> last (recent_activity_labels (reports_view example_reports_store example_now)) = 20396
   \<and> recent_activity_data (reports_view example_reports_store example_now) ! 28 = 1
   \<and> recent_activity_data (reports_view example_reports_store example_now) ! 29 = 0"
proof -
  note s = recent_activity_series [of example_reports_store example_now]
  have l28: "recent_activity_labels (reports_view example_reports_store example_now) ! 28 = 20395"
    and l29: "recent_activity_labels (reports_view example_reports_store example_now) ! 29 = 20396"
    by (simp_all add: rv_labels example_today del: upt_Suc)
  have d28: "recent_activity_data (reports_view example_reports_store example_now) ! 28 = 1"
    using s l28 by (simp add: count_by_day example_days)
  have d29: "recent_activity_data (reports_view example_reports_store example_now) ! 29 = 0"
    using s l29 by (simp add: count_by_day example_days)
  show ?thesis using s d28 d29 by (simp add: example_today)
qed

end
